theory Spec2Isabelle
  imports Complex_Main
begin

section \<open>Numbers and faults\<close>

text \<open>
  The program computes with Python floats. They are modelled as the reals they
  denote: arithmetic is exact and every number is finite. The one infinity the
  program writes down itself, \<open>float('inf')\<close> in \<open>series_focal_length\<close>, is a
  constructor of the result type of that function.

  A raised exception is the left summand of a result. Division of Python floats
  by zero raises \<open>ZeroDivisionError\<close>; reading a list past its end raises
  \<open>IndexError\<close>; \<open>numpy.linspace\<close> with a negative count raises \<open>ValueError\<close>.
  \<open>NotFinite\<close> is no exception: it marks a run in which \<open>numpy\<close> has divided by
  zero and, after a warning, has gone on with an infinity or a nan, values that
  the reals do not have. The model does not follow a run that it marks so.

  Whether a division by zero raises depends on what the operands are: between
  Python floats it raises, and with a \<open>numpy\<close> scalar among them it does not.
  A number that the program can hold in either form carries its form with it.
\<close>

datatype error = ZeroDivisionError | IndexError | ValueError | NotFinite

datatype scalar_kind = PyFloat | NumpyFloat64

section \<open>LensSystem.py\<close>

subsection \<open>OpticalMaterial\<close>

record OpticalMaterial =
  n0 :: real
  dn_dT :: real
  reference_temp :: real

text \<open>\<open>OpticalMaterial.__init__\<close>: the reference temperature is the constant 20.\<close>

definition OpticalMaterial_init :: "real \<Rightarrow> real \<Rightarrow> OpticalMaterial" where
  "OpticalMaterial_init n dn = \<lparr>n0 = n, dn_dT = dn, reference_temp = 20\<rparr>"

definition get_n :: "OpticalMaterial \<Rightarrow> real \<Rightarrow> real" where
  "get_n m T = n0 m + dn_dT m * (T - reference_temp m)"

subsection \<open>Two-by-two matrices\<close>

text \<open>
  A \<open>numpy\<close> array of shape (2, 2), row by row; \<open>matmul\<close> is the operator \<open>@\<close>
  on two such arrays, \<open>matvec\<close> the same operator on an array and a vector of
  length two.
\<close>

datatype mat2 = Mat2 (m00: real) (m01: real) (m10: real) (m11: real)

definition eye2 :: mat2 where
  "eye2 = Mat2 1 0 0 1"

fun matmul :: "mat2 \<Rightarrow> mat2 \<Rightarrow> mat2" where
  "matmul (Mat2 a b c d) (Mat2 e f g h) =
     Mat2 (a * e + b * g) (a * f + b * h) (c * e + d * g) (c * f + d * h)"

fun matvec :: "mat2 \<Rightarrow> real \<times> real \<Rightarrow> real \<times> real" where
  "matvec (Mat2 a b c d) (y, t) = (a * y + b * t, c * y + d * t)"

subsection \<open>LensSystem\<close>

text \<open>
  The attribute \<open>temperature\<close> is the one number of a system that the program
  holds in both forms: the constructor stores the Python float 20.0, and the
  sweep of \<open>plot_system_analysis\<close> assigns elements of a \<open>numpy\<close> array and
  leaves the last of them behind. The field \<open>temperature_kind\<close> is the form of
  the value of \<open>temperature\<close>. The focal lengths, the distances and the numbers
  of a material are Python floats, as \<open>main\<close> reads them.
\<close>

record LensSystem =
  focal_lengths :: "real list"
  distances :: "real list"
  materials :: "OpticalMaterial list"
  temperature :: real
  temperature_kind :: scalar_kind

text \<open>\<open>LensSystem.__init__\<close>: the operating temperature starts at 20.0.\<close>

definition LensSystem_init ::
  "real list \<Rightarrow> real list \<Rightarrow> OpticalMaterial list \<Rightarrow> LensSystem" where
  "LensSystem_init fs ds ms =
     \<lparr>focal_lengths = fs, distances = ds, materials = ms, temperature = 20,
      temperature_kind = PyFloat\<rparr>"

text \<open>
  The body of the loop of \<open>transfer_matrix\<close> for the lens of index \<open>i\<close> and focal
  length \<open>f\<close>, in the order of the source: the propagation matrix is built first
  (it cannot fail), then \<open>materials[i]\<close> is read, then the quotient is formed.
  The index \<open>n\<close> that \<open>get_n\<close> returns has the form of the temperature, and so
  has the product \<open>f * n\<close>. When the product is zero, the quotient of Python
  floats raises; that by a \<open>numpy\<close> scalar is an infinity, given after a
  warning, and the method goes on with it.
\<close>

definition propagation :: "LensSystem \<Rightarrow> nat \<Rightarrow> mat2" where
  "propagation s i =
     (if i < length (distances s) then Mat2 1 (distances s ! i) 0 1 else eye2)"

definition thin_lens :: "LensSystem \<Rightarrow> nat \<Rightarrow> real \<Rightarrow> error + mat2" where
  "thin_lens s i f =
     (if i < length (materials s) then
        (let n = get_n (materials s ! i) (temperature s) in
         if f * n = 0 then
           (case temperature_kind s of
              PyFloat \<Rightarrow> Inl ZeroDivisionError
            | NumpyFloat64 \<Rightarrow> Inl NotFinite)
         else Inr (Mat2 1 0 (- 1 / (f * n)) 1))
      else Inl IndexError)"

fun transfer_loop :: "LensSystem \<Rightarrow> nat \<Rightarrow> real list \<Rightarrow> mat2 \<Rightarrow> error + mat2" where
  "transfer_loop s i [] M = Inr M"
| "transfer_loop s i (f # fs) M =
     (case thin_lens s i f of
        Inl e \<Rightarrow> Inl e
      | Inr L \<Rightarrow> transfer_loop s (Suc i) fs (matmul (matmul M (propagation s i)) L))"

definition transfer_matrix :: "LensSystem \<Rightarrow> error + mat2" where
  "transfer_matrix s = transfer_loop s 0 (focal_lengths s) eye2"

subsection \<open>The transfer matrix as the specification words it\<close>

text \<open>
  The specification describes the result as a product of one factor per lens:
  \<open>P\<^sub>i\<close> is \<open>[[1, d\<^sub>i], [0, 1]]\<close> for \<open>i < K\<close> and the identity otherwise,
  \<open>L\<^sub>i\<close> is \<open>[[1, 0], [-1/(f\<^sub>i n\<^sub>i), 1]]\<close> with \<open>n\<^sub>i\<close> the index of the material
  \<open>i\<close> at the current temperature, and the product of the factors \<open>P\<^sub>i L\<^sub>i\<close> is
  taken from left to right, starting from the identity.
\<close>

definition spec_n :: "LensSystem \<Rightarrow> nat \<Rightarrow> real" where
  "spec_n s i = get_n (materials s ! i) (temperature s)"

definition spec_P :: "LensSystem \<Rightarrow> nat \<Rightarrow> mat2" where
  "spec_P s i =
     (if i < length (distances s) then Mat2 1 (distances s ! i) 0 1 else Mat2 1 0 0 1)"

definition spec_L :: "LensSystem \<Rightarrow> nat \<Rightarrow> mat2" where
  "spec_L s i = Mat2 1 0 (- 1 / (focal_lengths s ! i * spec_n s i)) 1"

definition spec_transfer :: "LensSystem \<Rightarrow> mat2" where
  "spec_transfer s =
     foldl matmul (Mat2 1 0 0 1)
       (map (\<lambda>i. matmul (spec_P s i) (spec_L s i)) [0..<length (focal_lengths s)])"

subsection \<open>RayTracer\<close>

text \<open>
  The loop of \<open>trace_ray\<close> over the distances: \<open>z\<close> is the running coordinate,
  \<open>y\<close> the height \<open>ray[0]\<close> (the loop never changes it), \<open>ps\<close> the list
  \<open>positions\<close>, which grows at its end. An exception of \<open>transfer_matrix\<close>
  ends \<open>trace_ray\<close>, and so does the mark \<open>NotFinite\<close> end the model of it.
\<close>

fun trace_loop :: "real list \<Rightarrow> real \<Rightarrow> real \<Rightarrow> (real \<times> real) list \<Rightarrow> (real \<times> real) list" where
  "trace_loop [] z y ps = ps"
| "trace_loop (d # ds) z y ps = trace_loop ds (z + d) y (ps @ [(z + d, y)])"

definition trace_ray :: "LensSystem \<Rightarrow> real \<Rightarrow> real \<Rightarrow> error + (real \<times> real) list" where
  "trace_ray s y0 theta0 =
     (case transfer_matrix s of
        Inl e \<Rightarrow> Inl e
      | Inr M \<Rightarrow> Inr (trace_loop (distances s) 0 (fst (matvec M (y0, theta0))) [(0, y0)]))"

subsection \<open>OpticalSystemOptimizer\<close>

text \<open>
  \<open>M[1,0]\<close> is a \<open>numpy\<close> scalar: dividing by it when it is zero raises nothing,
  \<open>current_f\<close> is then an infinity, and a target divided by an infinity is a
  zero, so that every new distance is a zero: here the infinity is divided
  away, and the model follows. Elsewhere the quotients are the real ones.
\<close>

definition optimize_focal_length :: "LensSystem \<Rightarrow> real \<Rightarrow> error + real list" where
  "optimize_focal_length s target_f =
     (case transfer_matrix s of
        Inl e \<Rightarrow> Inl e
      | Inr M \<Rightarrow>
          (let scale = (if m10 M = 0 then 0 else target_f / (- 1 / m10 M))
           in Inr (map (\<lambda>d. d * scale) (distances s))))"

subsection \<open>The optimizer on list objects\<close>

text \<open>
  Python lists are objects: the attributes of a \<open>LensSystem\<close> hold references to
  them, and the list comprehension of \<open>optimize_focal_length\<close> makes a new one.
  The store is the sequence of the list objects in the order of their
  allocation, a reference is an index into it, and a new object goes to the
  end. The state of a call is the system object together with the store.
\<close>

type_synonym ref = nat

type_synonym store = "real list list"

definition deref :: "store \<Rightarrow> ref \<Rightarrow> real list option" where
  "deref h r = (if r < length h then Some (h ! r) else None)"

definition alloc :: "real list \<Rightarrow> store \<Rightarrow> ref \<times> store" where
  "alloc xs h = (length h, h @ [xs])"

record LensSystem_object =
  focal_lengths_ref :: ref
  distances_ref :: ref
  materials_attr :: "OpticalMaterial list"
  temperature_attr :: real
  temperature_kind_attr :: scalar_kind

record py_state =
  lens_system :: LensSystem_object
  lists :: store

text \<open>The values that the attributes of the system denote in a state.\<close>

definition system_values :: "py_state \<Rightarrow> LensSystem option" where
  "system_values st =
     (case deref (lists st) (focal_lengths_ref (lens_system st)) of
        None \<Rightarrow> None
      | Some fs \<Rightarrow>
          (case deref (lists st) (distances_ref (lens_system st)) of
             None \<Rightarrow> None
           | Some ds \<Rightarrow>
               Some \<lparr>focal_lengths = fs, distances = ds,
                      materials = materials_attr (lens_system st),
                      temperature = temperature_attr (lens_system st),
                      temperature_kind = temperature_kind_attr (lens_system st)\<rparr>))"

text \<open>
  A call of \<open>optimize_focal_length\<close> in a state: the result is the reference
  to the new list, or the exception or the mark with which the computation of
  the transfer matrix ended. A state whose system refers to no list object is
  not a state of the program; the call has no value there.
\<close>

definition optimize_focal_length_call ::
  "real \<Rightarrow> py_state \<Rightarrow> ((error + ref) \<times> py_state) option" where
  "optimize_focal_length_call target_f st =
     (case system_values st of
        None \<Rightarrow> None
      | Some s \<Rightarrow>
          (case optimize_focal_length s target_f of
             Inl e \<Rightarrow> Some (Inl e, st)
           | Inr new_distances \<Rightarrow>
               (let (r, h) = alloc new_distances (lists st)
                in Some (Inr r, st\<lparr>lists := h\<rparr>))))"

subsection \<open>WaveProperties and WaveOpticsCalculator\<close>

record WaveProperties =
  wavelength :: real
  k :: real
  omega :: real

text \<open>\<open>WaveProperties.__init__\<close>; the quotient is one of Python floats.\<close>

definition WaveProperties_init :: "real \<Rightarrow> error + WaveProperties" where
  "WaveProperties_init wl =
     (if wl = 0 then Inl ZeroDivisionError
      else Inr \<lparr>wavelength = wl, k = 2 * pi / wl, omega = 300000000 * (2 * pi / wl)\<rparr>)"

text \<open>
  \<open>numpy.linspace(start, stop, num)\<close>, a library function: \<open>num\<close> evenly spaced
  samples over the closed interval from \<open>start\<close> to \<open>stop\<close>, the single sample
  being \<open>start\<close> when \<open>num\<close> is 1, and \<open>ValueError\<close> for a negative \<open>num\<close>.
\<close>

definition linspace :: "real \<Rightarrow> real \<Rightarrow> int \<Rightarrow> error + real list" where
  "linspace start stop num =
     (if num < 0 then Inl ValueError
      else if num = 1 then Inr [start]
      else Inr (map (\<lambda>i. start + real i * ((stop - start) / real (nat num - 1)))
                  [0..<nat num]))"

text \<open>
  \<open>calculate_diffraction\<close>. The function \<open>j0\<close> is imported from
  \<open>scipy.special\<close> and is a parameter here; it is applied to the array
  elementwise, as are the product, the quotient and the square. With a
  distance of zero the first element of a sampling that is not empty is the
  quotient of zero by zero.
\<close>

definition calculate_diffraction ::
  "(real \<Rightarrow> real) \<Rightarrow> WaveProperties \<Rightarrow> real \<Rightarrow> real \<Rightarrow> int \<Rightarrow> error + (real list \<times> real list)" where
  "calculate_diffraction j0 wave aperture_radius distance points =
     (case linspace 0 (aperture_radius * 10) points of
        Inl e \<Rightarrow> Inl e
      | Inr r \<Rightarrow>
          if distance = 0 \<and> r \<noteq> [] then Inl NotFinite
          else Inr (r, map (\<lambda>x. (aperture_radius * j0 (k wave * aperture_radius * x / distance))\<^sup>2) r))"

section \<open>LensCalculator.py\<close>

datatype LensType = CONVERGING | DIVERGING | ACHROMATIC | FRESNEL

record Lens =
  focal_length :: real
  lens_type :: LensType
  diameter :: real
  refractive_index :: real
  dispersion :: real

definition Lens_init :: "real \<Rightarrow> LensType \<Rightarrow> real \<Rightarrow> Lens" where
  "Lens_init f t d =
     \<lparr>focal_length = f, lens_type = t, diameter = d,
      refractive_index = 3 / 2, dispersion = 1 / 50\<rparr>"

text \<open>
  A result of \<open>series_focal_length\<close>: a finite number, or \<open>float('inf')\<close>.
\<close>

datatype pyfloat = Finite real | Infinity

text \<open>
  The builtin \<open>sum\<close> adds the items to an accumulator that starts at 0, from
  left to right. In \<open>series_focal_length\<close> the items come from a generator:
  the reciprocal of a focal length is formed when its turn comes, and a focal
  length of zero raises there.
\<close>

definition py_sum :: "real list \<Rightarrow> real" where
  "py_sum xs = foldl (+) 0 xs"

fun sum_powers :: "Lens list \<Rightarrow> real \<Rightarrow> error + real" where
  "sum_powers [] acc = Inr acc"
| "sum_powers (lens # lenses) acc =
     (if focal_length lens = 0 then Inl ZeroDivisionError
      else sum_powers lenses (acc + 1 / focal_length lens))"

definition series_focal_length :: "Lens list \<Rightarrow> error + pyfloat" where
  "series_focal_length lenses =
     (if lenses = [] then Inr (Finite 0)
      else
        (case sum_powers lenses 0 of
           Inl e \<Rightarrow> Inl e
         | Inr total_power \<Rightarrow>
             Inr (if total_power \<noteq> 0 then Finite (1 / total_power) else Infinity)))"

definition parallel_focal_length :: "Lens list \<Rightarrow> real" where
  "parallel_focal_length lenses = py_sum (map focal_length lenses)"

section \<open>Example systems\<close>

text \<open>
  Two lenses one unit apart, the first of a material whose index is 2 at the
  temperature of 30, which is a \<open>numpy\<close> scalar; three lenses with two distances
  at the temperature of the constructor; a lens of a material of index zero at
  the temperature of the constructor; and a lens of a material whose index is
  zero at 40, the temperature that the sweep of \<open>plot_system_analysis\<close> leaves
  behind.
\<close>

definition system_two :: LensSystem where
  "system_two =
     \<lparr>focal_lengths = [2, 4], distances = [1],
      materials = [OpticalMaterial_init 1 (1 / 10), OpticalMaterial_init 2 0],
      temperature = 30, temperature_kind = NumpyFloat64\<rparr>"

definition system_three :: LensSystem where
  "system_three =
     LensSystem_init [2, 4, 5] [1, 3]
       [OpticalMaterial_init 1 0, OpticalMaterial_init 2 0, OpticalMaterial_init 1 0]"

definition system_zero_index :: LensSystem where
  "system_zero_index = LensSystem_init [2] [] [OpticalMaterial_init 0 0]"

definition system_swept :: LensSystem where
  "system_swept =
     \<lparr>focal_lengths = [2], distances = [],
      materials = [OpticalMaterial_init (- 5) (1 / 4)],
      temperature = 40, temperature_kind = NumpyFloat64\<rparr>"

text \<open>
  A state in which the system of three lenses lives: its focal lengths are the
  list object 0, its distances the list object 1.
\<close>

definition state_three :: py_state where
  "state_three =
     \<lparr>lens_system =
        \<lparr>focal_lengths_ref = 0, distances_ref = 1,
         materials_attr =
           [OpticalMaterial_init 1 0, OpticalMaterial_init 2 0, OpticalMaterial_init 1 0],
         temperature_attr = 20, temperature_kind_attr = PyFloat\<rparr>,
      lists = [[2, 4, 5], [1, 3]]\<rparr>"

section \<open>The refractive index\<close>

text \<open>
  Claim C6. \<open>get_n(T)\<close> is \<open>n0 + dn_dT * (T - 20)\<close> for every real \<open>T\<close>, the
  reference temperature being the 20 that the constructor stores; the function
  is total and has no failure branch (its result is a number, not a sum). In
  particular \<open>get_n(20) = n0\<close> for every \<open>n0\<close> and every \<open>dn_dT\<close>.
\<close>

theorem get_n_linear:
  "get_n (OpticalMaterial_init n dn) T = n + dn * (T - 20)
   \<and> get_n (OpticalMaterial_init n dn) 20 = n"
  by (simp add: get_n_def OpticalMaterial_init_def)

section \<open>The transfer matrix\<close>

text \<open>
  Claim C10. With an empty list of focal lengths the loop body never runs:
  \<open>transfer_matrix()\<close> is the identity matrix, whatever the distances, the
  materials and the temperature, in value and in form, are.
\<close>

theorem transfer_matrix_no_lens:
  "transfer_matrix
     \<lparr>focal_lengths = [], distances = ds, materials = ms, temperature = T,
      temperature_kind = kd\<rparr>
     = Inr (Mat2 1 0 0 1)"
  by (simp add: transfer_matrix_def eye2_def)

section \<open>The loop of the transfer matrix\<close>

lemma matmul_assoc: "matmul (matmul A B) C = matmul A (matmul B C)"
  by (cases A; cases B; cases C) (simp add: algebra_simps)

lemma propagation_spec: "propagation s i = spec_P s i"
  by (simp add: propagation_def spec_P_def eye2_def)

lemma thin_lens_ok:
  assumes "i < length (materials s)" and "f * spec_n s i \<noteq> 0"
  shows "thin_lens s i f = Inr (Mat2 1 0 (- 1 / (f * spec_n s i)) 1)"
  using assms by (simp add: thin_lens_def spec_n_def Let_def)

text \<open>
  The loop from the lens \<open>i\<close> on, when every lens has a material and no
  denominator is zero: the accumulator is multiplied by the remaining factors.
\<close>

lemma transfer_loop_spec:
  assumes "i + length fs = length (focal_lengths s)"
    and "fs = drop i (focal_lengths s)"
    and "length (focal_lengths s) \<le> length (materials s)"
    and "\<forall>j < length (focal_lengths s). focal_lengths s ! j * spec_n s j \<noteq> 0"
  shows "transfer_loop s i fs M =
     Inr (foldl matmul M
            (map (\<lambda>j. matmul (spec_P s j) (spec_L s j)) [i..<length (focal_lengths s)]))"
  using assms
proof (induction fs arbitrary: i M)
  case Nil
  then show ?case by simp
next
  case (Cons f fs)
  have i: "i < length (focal_lengths s)" using Cons.prems(1) by simp
  have f: "f = focal_lengths s ! i"
    using Cons.prems(2) i by (metis nth_via_drop)
  have fs: "fs = drop (Suc i) (focal_lengths s)"
    using Cons.prems(2) by (metis drop_Suc list.sel(3) tl_drop)
  have nz: "f * spec_n s i \<noteq> 0" using Cons.prems(4) i f by simp
  have tl: "thin_lens s i f = Inr (spec_L s i)"
    using thin_lens_ok[of i s f] i Cons.prems(3) nz f by (simp add: spec_L_def)
  have IH: "transfer_loop s (Suc i) fs M' =
     Inr (foldl matmul M'
            (map (\<lambda>j. matmul (spec_P s j) (spec_L s j)) [Suc i..<length (focal_lengths s)]))"
    for M'
    using Cons.IH[of "Suc i" M'] Cons.prems fs by simp
  have up: "[i..<length (focal_lengths s)] = i # [Suc i..<length (focal_lengths s)]"
    using i by (simp add: upt_conv_Cons)
  show ?case
    by (simp add: tl IH up propagation_spec matmul_assoc)
qed

text \<open>
  The outcome of a division by a product of zero, by the form of the
  temperature.
\<close>

lemma thin_lens_zero:
  assumes "i < length (materials s)" and "f * spec_n s i = 0"
  shows "thin_lens s i f =
     Inl (case temperature_kind s of PyFloat \<Rightarrow> ZeroDivisionError | NumpyFloat64 \<Rightarrow> NotFinite)"
  using assms by (simp add: thin_lens_def spec_n_def split: scalar_kind.splits)

text \<open>
  The loop from the lens \<open>i\<close> on, when a later lens that has a material has a
  zero denominator: the lenses before it have materials too, and the loop ends
  at the first zero denominator.
\<close>

lemma transfer_loop_zero:
  assumes "i + length fs = length (focal_lengths s)"
    and "fs = drop i (focal_lengths s)"
    and "\<exists>j. i \<le> j \<and> j < length (focal_lengths s) \<and> j < length (materials s)
           \<and> focal_lengths s ! j * spec_n s j = 0"
  shows "transfer_loop s i fs M =
     Inl (case temperature_kind s of PyFloat \<Rightarrow> ZeroDivisionError | NumpyFloat64 \<Rightarrow> NotFinite)"
  using assms
proof (induction fs arbitrary: i M)
  case Nil
  then show ?case by auto
next
  case (Cons f fs)
  have i: "i < length (focal_lengths s)" using Cons.prems(1) by simp
  have f: "f = focal_lengths s ! i"
    using Cons.prems(2) i by (metis nth_via_drop)
  have fs: "fs = drop (Suc i) (focal_lengths s)"
    using Cons.prems(2) by (metis drop_Suc list.sel(3) tl_drop)
  obtain j where j: "i \<le> j" "j < length (focal_lengths s)" "j < length (materials s)"
      "focal_lengths s ! j * spec_n s j = 0"
    using Cons.prems(3) by blast
  have im: "i < length (materials s)" using j by simp
  show ?case
  proof (cases "f * spec_n s i = 0")
    case True
    then show ?thesis using im by (simp add: thin_lens_zero)
  next
    case False
    then have "j \<noteq> i" using j(4) f by auto
    then have "Suc i \<le> j" using j(1) by simp
    then have ex: "\<exists>j. Suc i \<le> j \<and> j < length (focal_lengths s) \<and> j < length (materials s)
           \<and> focal_lengths s ! j * spec_n s j = 0"
      using j by blast
    have IH: "transfer_loop s (Suc i) fs M' =
       Inl (case temperature_kind s of PyFloat \<Rightarrow> ZeroDivisionError | NumpyFloat64 \<Rightarrow> NotFinite)"
      for M'
      using Cons.IH[of "Suc i" M'] Cons.prems(1) fs ex by simp
    show ?thesis using False im by (simp add: thin_lens_ok IH)
  qed
qed

subsection \<open>The example systems\<close>

lemma system_two_matrix: "transfer_matrix system_two = Inr (Mat2 (5 / 8) 1 (- 3 / 8) 1)"
  by (simp add: transfer_matrix_def system_two_def thin_lens_def propagation_def eye2_def
      get_n_def OpticalMaterial_init_def)

lemma system_three_matrix:
  "transfer_matrix system_three = Inr (Mat2 (- 5 / 16) (5 / 2) (- 27 / 80) (- 1 / 2))"
  by (simp add: transfer_matrix_def system_three_def LensSystem_init_def thin_lens_def
      propagation_def eye2_def get_n_def OpticalMaterial_init_def)

lemma system_zero_index_fault: "transfer_matrix system_zero_index = Inl ZeroDivisionError"
  by (simp add: transfer_matrix_def system_zero_index_def LensSystem_init_def thin_lens_def
      get_n_def OpticalMaterial_init_def)

lemma system_swept_index: "get_n (OpticalMaterial_init (- 5) (1 / 4)) 40 = 0"
  by (simp add: get_n_def OpticalMaterial_init_def)

section \<open>The product of the factors\<close>

text \<open>
  Claim C1. For a system in which every lens has a material (\<open>N \<le> len(materials)\<close>)
  and in which the quotients \<open>-1/(f\<^sub>i n\<^sub>i)\<close> that the claim writes are defined,
  \<open>transfer_matrix()\<close> returns the product of the factors \<open>P\<^sub>i L\<^sub>i\<close> taken from left
  to right from the identity, \<open>n\<^sub>i\<close> being the index at the temperature that the
  system has when the method is called. In particular a single lens of focal
  length \<open>f\<close>, no distance and a material with \<open>n0 = 1\<close> and \<open>dn_dT = 0\<close> give
  \<open>[[1, 0], [-1/f, 1]]\<close>, and \<open>-1/M[1][0]\<close> is \<open>f\<close>.
\<close>

theorem transfer_matrix_product:
  "(length (focal_lengths s) \<le> length (materials s)
      \<and> (\<forall>i < length (focal_lengths s). focal_lengths s ! i * spec_n s i \<noteq> 0)
     \<longrightarrow> transfer_matrix s = Inr (spec_transfer s))
   \<and> (f \<noteq> 0 \<longrightarrow>
        transfer_matrix (LensSystem_init [f] [] [OpticalMaterial_init 1 0])
          = Inr (Mat2 1 0 (- 1 / f) 1)
        \<and> - 1 / m10 (Mat2 1 0 (- 1 / f) 1) = f)"
proof (intro conjI impI)
  assume "length (focal_lengths s) \<le> length (materials s)
      \<and> (\<forall>i < length (focal_lengths s). focal_lengths s ! i * spec_n s i \<noteq> 0)"
  then show "transfer_matrix s = Inr (spec_transfer s)"
    using transfer_loop_spec[of 0 "focal_lengths s" s eye2]
    by (simp add: transfer_matrix_def spec_transfer_def eye2_def)
next
  assume "f \<noteq> 0"
  then show "transfer_matrix (LensSystem_init [f] [] [OpticalMaterial_init 1 0])
          = Inr (Mat2 1 0 (- 1 / f) 1)"
    by (simp add: transfer_matrix_def LensSystem_init_def thin_lens_def propagation_def
        eye2_def get_n_def OpticalMaterial_init_def)
next
  show "- 1 / m10 (Mat2 1 0 (- 1 / f) 1) = f" by simp
qed

theorem transfer_matrix_product_witness:
  "transfer_matrix system_two = Inr (spec_transfer system_two)
   \<and> spec_transfer system_two = Mat2 (5 / 8) 1 (- 3 / 8) 1
   \<and> transfer_matrix (LensSystem_init [2] [] [OpticalMaterial_init 1 0])
       = Inr (Mat2 1 0 (- 1 / 2) 1)
   \<and> - 1 / m10 (Mat2 1 0 (- 1 / 2) 1) = (2::real)"
proof -
  have h: "length (focal_lengths system_two) \<le> length (materials system_two)
      \<and> (\<forall>i < length (focal_lengths system_two).
            focal_lengths system_two ! i * spec_n system_two i \<noteq> 0)"
    by (simp add: system_two_def spec_n_def get_n_def OpticalMaterial_init_def less_Suc_eq
        numeral_2_eq_2)
  have v: "spec_transfer system_two = Mat2 (5 / 8) 1 (- 3 / 8) 1"
    by (simp add: spec_transfer_def system_two_def spec_P_def spec_L_def spec_n_def get_n_def
        OpticalMaterial_init_def numeral_2_eq_2)
  show ?thesis
    using transfer_matrix_product[of system_two 2] h v by simp
qed

section \<open>Division by zero in the transfer matrix\<close>

text \<open>
  Claim C4. When every lens has a material and every product \<open>f\<^sub>i n\<^sub>i\<close> is not
  zero, \<open>transfer_matrix()\<close> returns a matrix of finite numbers, whatever the
  form of the temperature is: it completes without an arithmetic fault. When
  some lens that has a material has \<open>f\<^sub>i n\<^sub>i = 0\<close>, the quotient \<open>-1/(f\<^sub>i n\<^sub>i)\<close> is a
  division by zero that no branch of the method handles, one of the two
  arithmetic faults that the specification names, \<open>infinity or a fatal numeric
  error\<close>: with a temperature that is a Python float the call ends in
  \<open>ZeroDivisionError\<close>, and with one that is a \<open>numpy\<close> scalar the quotient is
  an infinity, given after a warning, with which the method goes on. In
  neither case is the result a matrix of finite numbers.
\<close>

theorem transfer_matrix_faults:
  "(length (focal_lengths s) \<le> length (materials s)
      \<and> (\<forall>i < length (focal_lengths s).
            focal_lengths s ! i * get_n (materials s ! i) (temperature s) \<noteq> 0)
     \<longrightarrow> (\<exists>M. transfer_matrix s = Inr M))
   \<and> ((\<exists>i < length (focal_lengths s). i < length (materials s)
          \<and> focal_lengths s ! i * get_n (materials s ! i) (temperature s) = 0)
     \<longrightarrow> (temperature_kind s = PyFloat \<longrightarrow> transfer_matrix s = Inl ZeroDivisionError)
        \<and> (temperature_kind s = NumpyFloat64 \<longrightarrow> transfer_matrix s = Inl NotFinite))"
proof (intro conjI impI)
  assume "length (focal_lengths s) \<le> length (materials s)
      \<and> (\<forall>i < length (focal_lengths s).
            focal_lengths s ! i * get_n (materials s ! i) (temperature s) \<noteq> 0)"
  then show "\<exists>M. transfer_matrix s = Inr M"
    using transfer_loop_spec[of 0 "focal_lengths s" s eye2]
    by (simp add: transfer_matrix_def spec_n_def)
next
  assume "\<exists>i < length (focal_lengths s). i < length (materials s)
          \<and> focal_lengths s ! i * get_n (materials s ! i) (temperature s) = 0"
    and "temperature_kind s = PyFloat"
  then show "transfer_matrix s = Inl ZeroDivisionError"
    using transfer_loop_zero[of 0 "focal_lengths s" s eye2]
    by (auto simp add: transfer_matrix_def spec_n_def)
next
  assume "\<exists>i < length (focal_lengths s). i < length (materials s)
          \<and> focal_lengths s ! i * get_n (materials s ! i) (temperature s) = 0"
    and "temperature_kind s = NumpyFloat64"
  then show "transfer_matrix s = Inl NotFinite"
    using transfer_loop_zero[of 0 "focal_lengths s" s eye2]
    by (auto simp add: transfer_matrix_def spec_n_def)
qed

theorem transfer_matrix_faults_witness:
  "(\<exists>M. transfer_matrix system_three = Inr M)
   \<and> transfer_matrix system_zero_index = Inl ZeroDivisionError
   \<and> transfer_matrix system_swept = Inl NotFinite"
proof -
  have c: "\<exists>i < length (focal_lengths system_swept). i < length (materials system_swept)
          \<and> focal_lengths system_swept ! i
              * get_n (materials system_swept ! i) (temperature system_swept) = 0"
    by (simp add: system_swept_def system_swept_index)
  have kz: "temperature_kind system_zero_index = PyFloat"
    by (simp add: system_zero_index_def LensSystem_init_def)
  have ks: "temperature_kind system_swept = NumpyFloat64"
    by (simp add: system_swept_def)
  have a: "length (focal_lengths system_three) \<le> length (materials system_three)
      \<and> (\<forall>i < length (focal_lengths system_three).
            focal_lengths system_three ! i
              * get_n (materials system_three ! i) (temperature system_three) \<noteq> 0)"
    by (simp add: system_three_def LensSystem_init_def get_n_def OpticalMaterial_init_def
        less_Suc_eq numeral_3_eq_3)
  have b: "\<exists>i < length (focal_lengths system_zero_index). i < length (materials system_zero_index)
          \<and> focal_lengths system_zero_index ! i
              * get_n (materials system_zero_index ! i) (temperature system_zero_index) = 0"
    by (simp add: system_zero_index_def LensSystem_init_def get_n_def OpticalMaterial_init_def)
  show ?thesis
    using transfer_matrix_faults[of system_three] transfer_matrix_faults[of system_zero_index]
      transfer_matrix_faults[of system_swept] a b c kz ks by blast
qed

section \<open>The traced positions\<close>

text \<open>
  The loop of \<open>trace_ray\<close> appends one pair for each distance: the running sum
  of the distances so far, and the height that it was given.
\<close>

lemma trace_loop_eq:
  "trace_loop ds z y ps = ps @ map (\<lambda>i. (z + sum_list (take i ds), y)) [1..<Suc (length ds)]"
proof (induction ds arbitrary: z ps)
  case Nil
  then show ?case by simp
next
  case (Cons d ds)
  have "map (\<lambda>i. (z + sum_list (take i (d # ds)), y)) [1..<Suc (length (d # ds))]
      = (z + d, y) # map (\<lambda>i. (z + d + sum_list (take i ds), y)) [1..<Suc (length ds)]"
  proof -
    have "[1..<Suc (length (d # ds))] = 1 # map Suc [1..<Suc (length ds)]"
      by (simp add: upt_conv_Cons map_Suc_upt del: upt_Suc)
    then show ?thesis by (simp add: comp_def add.assoc del: upt_Suc)
  qed
  then show ?case by (simp add: Cons.IH del: upt_Suc)
qed

text \<open>
  Claim C3. The method applies the transfer matrix of the whole system once,
  before the walk over the distances. When \<open>transfer_matrix()\<close> returns \<open>M\<close>,
  \<open>trace_ray(y0, theta0)\<close> returns a list of \<open>len(distances) + 1\<close> pairs: the
  first is \<open>(0, y0)\<close>, and for each \<open>i\<close> from 1 on the pair of index \<open>i\<close> is
  \<open>(d\<^sub>0 + ... + d\<^sub>i\<^sub>-\<^sub>1, y_out)\<close>, where \<open>y_out\<close> is the first component of \<open>M\<close> applied
  to \<open>[y0, theta0]\<close>; every position after the first has this one height. A
  system for which \<open>transfer_matrix()\<close> raises has no matrix \<open>M\<close>, and
  \<open>trace_ray\<close> ends in the same exception; a run that the model has left at
  an infinity in \<open>transfer_matrix()\<close> stays left.
\<close>

theorem trace_ray_positions:
  "(transfer_matrix s = Inr M \<longrightarrow>
      (\<exists>ps. trace_ray s y0 theta0 = Inr ps
           \<and> length ps = length (distances s) + 1
           \<and> ps ! 0 = (0, y0)
           \<and> (\<forall>i. 1 \<le> i \<and> i \<le> length (distances s) \<longrightarrow>
                 ps ! i = (sum_list (take i (distances s)), m00 M * y0 + m01 M * theta0))))
   \<and> (transfer_matrix s = Inl e \<longrightarrow> trace_ray s y0 theta0 = Inl e)"
proof (intro conjI impI)
  assume M: "transfer_matrix s = Inr M"
  let ?y = "fst (matvec M (y0, theta0))"
  let ?ps = "(0, y0) # map (\<lambda>i. (sum_list (take i (distances s)), ?y))
                          [1..<Suc (length (distances s))]"
  have y: "?y = m00 M * y0 + m01 M * theta0" by (cases M) simp
  have r: "trace_ray s y0 theta0 = Inr ?ps"
    using M by (simp add: trace_ray_def trace_loop_eq del: upt_Suc)
  have n: "?ps ! i = (sum_list (take i (distances s)), ?y)"
    if i1: "1 \<le> i" and i2: "i \<le> length (distances s)" for i
  proof -
    obtain j where j: "i = Suc j" using i1 by (cases i) auto
    have "j < length [1..<Suc (length (distances s))]" using i2 j by simp
    then show ?thesis using j by (simp add: nth_map del: upt_Suc)
  qed
  show "\<exists>ps. trace_ray s y0 theta0 = Inr ps
           \<and> length ps = length (distances s) + 1
           \<and> ps ! 0 = (0, y0)
           \<and> (\<forall>i. 1 \<le> i \<and> i \<le> length (distances s) \<longrightarrow>
                 ps ! i = (sum_list (take i (distances s)), m00 M * y0 + m01 M * theta0))"
    using r n y by (auto simp del: upt_Suc)
next
  assume "transfer_matrix s = Inl e"
  then show "trace_ray s y0 theta0 = Inl e" by (simp add: trace_ray_def)
qed

theorem trace_ray_positions_witness:
  "(\<exists>ps. trace_ray system_three 1 0 = Inr ps \<and> length ps = 3
     \<and> ps ! 0 = (0, 1) \<and> ps ! 1 = (1, - 5 / 16) \<and> ps ! 2 = (4, - 5 / 16))
   \<and> trace_ray system_zero_index 1 0 = Inl ZeroDivisionError"
proof -
  obtain ps where ps: "trace_ray system_three 1 0 = Inr ps"
      "length ps = length (distances system_three) + 1"
      "ps ! 0 = (0, 1)"
      "\<forall>i. 1 \<le> i \<and> i \<le> length (distances system_three) \<longrightarrow>
         ps ! i = (sum_list (take i (distances system_three)),
                   m00 (Mat2 (- 5 / 16) (5 / 2) (- 27 / 80) (- 1 / 2)) * 1
                   + m01 (Mat2 (- 5 / 16) (5 / 2) (- 27 / 80) (- 1 / 2)) * 0)"
    using trace_ray_positions[of system_three
        "Mat2 (- 5 / 16) (5 / 2) (- 27 / 80) (- 1 / 2)" 1 0] system_three_matrix
    by blast
  have d: "distances system_three = [1, 3]"
    by (simp add: system_three_def LensSystem_init_def)
  have p1: "ps ! 1 = (1, - 5 / 16)" using ps(4)[rule_format, of 1] d by simp
  have p2: "ps ! 2 = (4, - 5 / 16)" using ps(4)[rule_format, of 2] d by simp
  have z: "trace_ray system_zero_index 1 0 = Inl ZeroDivisionError"
    using trace_ray_positions[of system_zero_index eye2 1 0 ZeroDivisionError]
      system_zero_index_fault by blast
  show ?thesis using ps(1-3) d p1 p2 z by simp
qed

section \<open>The rescaled distances\<close>

text \<open>
  Claim C2. For a system whose transfer matrix \<open>M\<close> has \<open>M[1][0] \<noteq> 0\<close>,
  \<open>optimize_focal_length(target_f)\<close> returns the distances multiplied by
  \<open>target_f / current_f\<close>, where \<open>current_f = -1/M[1][0]\<close>; with \<open>target_f\<close> equal
  to \<open>current_f\<close> it returns the distances as they are.
\<close>

theorem optimize_focal_length_scale:
  assumes "transfer_matrix s = Inr M" and "m10 M \<noteq> 0"
  shows "optimize_focal_length s target_f
           = Inr (map (\<lambda>d. d * (target_f / (- 1 / m10 M))) (distances s))
         \<and> optimize_focal_length s (- 1 / m10 M) = Inr (distances s)"
  using assms by (simp add: optimize_focal_length_def)

theorem optimize_focal_length_scale_witness:
  "optimize_focal_length system_three 3 = Inr [81 / 80, 243 / 80]
   \<and> optimize_focal_length system_three (80 / 27) = Inr [1, 3]"
proof -
  have d: "distances system_three = [1, 3]"
    by (simp add: system_three_def LensSystem_init_def)
  show ?thesis
    using optimize_focal_length_scale[OF system_three_matrix, of 3] d by simp
qed

section \<open>Lenses in parallel\<close>

text \<open>The accumulator of \<open>sum\<close> ends as the sum of the items.\<close>

lemma foldl_plus_sum_list: "foldl (+) a xs = (a::real) + sum_list xs"
  by (induction xs arbitrary: a) (simp_all add: add.assoc)

text \<open>
  Claim C7. For every list of lenses, the empty one too,
  \<open>parallel_focal_length\<close> is the sum of their focal lengths; the empty list
  gives 0.
\<close>

theorem parallel_focal_length_sum:
  "parallel_focal_length lenses = (\<Sum>lens\<leftarrow>lenses. focal_length lens)
   \<and> parallel_focal_length [] = 0"
  by (simp add: parallel_focal_length_def py_sum_def foldl_plus_sum_list)

section \<open>Lenses in series\<close>

text \<open>
  With no focal length of zero, the generator raises nowhere and the
  accumulator ends as the sum of the reciprocals.
\<close>

lemma sum_powers_nonzero:
  assumes "\<forall>lens \<in> set lenses. focal_length lens \<noteq> 0"
  shows "sum_powers lenses acc = Inr (acc + (\<Sum>lens\<leftarrow>lenses. 1 / focal_length lens))"
  using assms by (induction lenses arbitrary: acc) (simp_all add: add.assoc)

text \<open>
  Claim C5. For lenses with focal lengths that are not zero,
  \<open>series_focal_length\<close> returns 0 for the empty list, the reciprocal of the
  total power \<open>1/f\<^sub>0 + ... + 1/f\<^sub>n\<^sub>-\<^sub>1\<close> when this power is not zero, and
  \<open>float('inf')\<close> when it is zero. A single lens gives its own focal length,
  and two lenses with the focal lengths \<open>f\<close> and \<open>-f\<close> give \<open>float('inf')\<close>.
\<close>

theorem series_focal_length_value:
  "((\<forall>lens \<in> set lenses. focal_length lens \<noteq> 0) \<longrightarrow>
      series_focal_length lenses =
        Inr (if lenses = [] then Finite 0
             else if (\<Sum>lens\<leftarrow>lenses. 1 / focal_length lens) \<noteq> 0
               then Finite (1 / (\<Sum>lens\<leftarrow>lenses. 1 / focal_length lens))
               else Infinity))
   \<and> series_focal_length [] = Inr (Finite 0)
   \<and> (f \<noteq> 0 \<longrightarrow>
        series_focal_length [Lens_init f t d] = Inr (Finite f)
        \<and> series_focal_length [Lens_init f t d, Lens_init (- f) t' d'] = Inr Infinity)"
proof (intro conjI impI)
  assume "\<forall>lens \<in> set lenses. focal_length lens \<noteq> 0"
  then show "series_focal_length lenses =
        Inr (if lenses = [] then Finite 0
             else if (\<Sum>lens\<leftarrow>lenses. 1 / focal_length lens) \<noteq> 0
               then Finite (1 / (\<Sum>lens\<leftarrow>lenses. 1 / focal_length lens))
               else Infinity)"
    by (simp add: series_focal_length_def sum_powers_nonzero)
next
  show "series_focal_length [] = Inr (Finite 0)"
    by (simp add: series_focal_length_def)
next
  assume "f \<noteq> 0"
  then show "series_focal_length [Lens_init f t d] = Inr (Finite f)"
    by (simp add: series_focal_length_def Lens_init_def)
next
  assume "f \<noteq> 0"
  then show "series_focal_length [Lens_init f t d, Lens_init (- f) t' d'] = Inr Infinity"
    by (simp add: series_focal_length_def Lens_init_def)
qed

theorem series_focal_length_value_witness:
  "series_focal_length [Lens_init 10 CONVERGING 5, Lens_init 15 FRESNEL 4] = Inr (Finite 6)
   \<and> series_focal_length [Lens_init 10 CONVERGING 5] = Inr (Finite 10)
   \<and> series_focal_length [Lens_init 10 CONVERGING 5, Lens_init (- 10) DIVERGING 5]
       = Inr Infinity"
proof -
  have h: "\<forall>lens \<in> set [Lens_init 10 CONVERGING 5, Lens_init 15 FRESNEL 4].
             focal_length lens \<noteq> 0"
    by (simp add: Lens_init_def)
  have z: "(10::real) \<noteq> 0" by simp
  show ?thesis
    using series_focal_length_value[of "[Lens_init 10 CONVERGING 5, Lens_init 15 FRESNEL 4]" 10
        CONVERGING 5 DIVERGING 5] h z
    by (simp add: Lens_init_def)
qed

section \<open>What the optimizer leaves alone\<close>

lemma deref_Some_less: "deref h r = Some xs \<Longrightarrow> r < length h"
  by (simp add: deref_def split: if_splits)

lemma state_three_values: "system_values state_three = Some system_three"
  by (simp add: system_values_def state_three_def deref_def system_three_def LensSystem_init_def)

text \<open>
  Claim C9. A call of \<open>optimize_focal_length(target_f)\<close> on a system with the
  values \<open>s\<close> leaves the system object as it is, so that its focal lengths,
  distances, materials and temperature have the values of \<open>s\<close> after the call
  as before, and it leaves every list object that existed before the call as
  it was. When the call returns, the list it returns is a new object: its
  reference denoted no list before the call and so is neither the distances
  nor the focal lengths of the system, and it holds the rescaled distances.
\<close>

theorem optimize_focal_length_frame:
  assumes "system_values st = Some s"
  shows "\<exists>res st'. optimize_focal_length_call target_f st = Some (res, st')
     \<and> lens_system st' = lens_system st
     \<and> system_values st' = Some s
     \<and> (\<forall>r. r < length (lists st) \<longrightarrow> deref (lists st') r = deref (lists st) r)
     \<and> (\<forall>r. res = Inr r \<longrightarrow>
           deref (lists st) r = None
           \<and> r \<noteq> distances_ref (lens_system st)
           \<and> r \<noteq> focal_lengths_ref (lens_system st)
           \<and> (\<exists>new. optimize_focal_length s target_f = Inr new
                  \<and> deref (lists st') r = Some new))"
proof -
  obtain fs ds where fs: "deref (lists st) (focal_lengths_ref (lens_system st)) = Some fs"
    and ds: "deref (lists st) (distances_ref (lens_system st)) = Some ds"
    using assms by (auto simp: system_values_def split: option.splits)
  have lf: "focal_lengths_ref (lens_system st) < length (lists st)"
    using fs by (rule deref_Some_less)
  have ld: "distances_ref (lens_system st) < length (lists st)"
    using ds by (rule deref_Some_less)
  show ?thesis
  proof (cases "optimize_focal_length s target_f")
    case (Inl e)
    then have "optimize_focal_length_call target_f st = Some (Inl e, st)"
      using assms by (simp add: optimize_focal_length_call_def)
    then show ?thesis using assms by simp
  next
    case (Inr new)
    let ?st' = "st\<lparr>lists := lists st @ [new]\<rparr>"
    have c: "optimize_focal_length_call target_f st = Some (Inr (length (lists st)), ?st')"
      using assms Inr by (simp add: optimize_focal_length_call_def alloc_def)
    have old: "deref (lists ?st') r = deref (lists st) r" if "r < length (lists st)" for r
      using that by (simp add: deref_def nth_append)
    have v: "system_values ?st' = Some s"
      using assms fs ds lf ld by (simp add: system_values_def deref_def nth_append)
    have new: "deref (lists ?st') (length (lists st)) = Some new"
      by (simp add: deref_def)
    have fresh: "deref (lists st) (length (lists st)) = None"
      by (simp add: deref_def)
    show ?thesis
      using c old v new fresh lf ld Inr by auto
  qed
qed

theorem optimize_focal_length_frame_witness:
  "optimize_focal_length_call 3 state_three
     = Some (Inr 2, state_three\<lparr>lists := [[2, 4, 5], [1, 3], [81 / 80, 243 / 80]]\<rparr>)
   \<and> system_values (state_three\<lparr>lists := [[2, 4, 5], [1, 3], [81 / 80, 243 / 80]]\<rparr>)
       = Some system_three
   \<and> deref (lists state_three) 2 = None"
proof -
  have o: "optimize_focal_length system_three 3 = Inr [81 / 80, 243 / 80]"
    by (simp add: optimize_focal_length_def system_three_matrix)
       (simp add: system_three_def LensSystem_init_def)
  have c: "optimize_focal_length_call 3 state_three
     = Some (Inr 2, state_three\<lparr>lists := [[2, 4, 5], [1, 3], [81 / 80, 243 / 80]]\<rparr>)"
    by (simp add: optimize_focal_length_call_def state_three_values o alloc_def)
       (simp add: state_three_def)
  show ?thesis
    using optimize_focal_length_frame[OF state_three_values, of 3] c by auto
qed

section \<open>The diffraction pattern\<close>

text \<open>
  From 0 the samples of \<open>linspace\<close> are the multiples of the step, also for a
  single sample, whose index is 0.
\<close>

lemma linspace_zero_start:
  assumes "0 \<le> num"
  shows "linspace 0 b num = Inr (map (\<lambda>i. real i * (b / real (nat num - 1))) [0..<nat num])"
proof (cases "num = 1")
  case True
  then show ?thesis by (simp add: linspace_def)
next
  case False
  then show ?thesis using assms by (simp add: linspace_def)
qed

text \<open>
  Claim C8. For a wave built from a wavelength \<open>wl\<close>, an aperture radius \<open>a\<close>,
  a distance that is not zero and a number of samples \<open>points\<close>,
  \<open>calculate_diffraction\<close> returns a pair \<open>(r, I)\<close> of \<open>points\<close> elements each:
  \<open>r\<close> samples the interval from 0 to \<open>10 a\<close> in equal steps (the sample of
  index \<open>i\<close> is \<open>i\<close> times \<open>10 a / (points - 1)\<close>, so that the first is 0 and the
  last is \<open>10 a\<close>), and \<open>I\<close> is, element by element, the square of
  \<open>a j0(k a r / distance)\<close> with \<open>k = 2 pi / wl\<close>. The result is a function of the
  arguments alone. The function \<open>j0\<close> is the one that the program imports.
\<close>

theorem calculate_diffraction_pattern:
  assumes "WaveProperties_init wl = Inr wave" and "0 \<le> points" and "distance \<noteq> 0"
  shows "\<exists>r I. calculate_diffraction j0 wave a distance points = Inr (r, I)
     \<and> length r = nat points
     \<and> (\<forall>i < nat points. r ! i = real i * (10 * a / real (nat points - 1)))
     \<and> (2 \<le> points \<longrightarrow> r ! 0 = 0 \<and> r ! (nat points - 1) = 10 * a)
     \<and> length I = nat points
     \<and> (\<forall>i < nat points. I ! i = (a * j0 (2 * pi / wl * a * (r ! i) / distance))\<^sup>2)"
proof -
  let ?r = "map (\<lambda>i. real i * (a * 10 / real (nat points - 1))) [0..<nat points]"
  let ?I = "map (\<lambda>x. (a * j0 (k wave * a * x / distance))\<^sup>2) ?r"
  have kw: "k wave = 2 * pi / wl"
    using assms(1) by (auto simp: WaveProperties_init_def split: if_splits)
  have c: "calculate_diffraction j0 wave a distance points = Inr (?r, ?I)"
    using assms(2,3) by (simp add: calculate_diffraction_def linspace_zero_start)
  have n: "\<forall>i < nat points. ?r ! i = real i * (10 * a / real (nat points - 1))"
    by (simp add: mult.commute)
  have e: "2 \<le> points \<longrightarrow> ?r ! 0 = 0 \<and> ?r ! (nat points - 1) = 10 * a"
    by simp
  have "\<forall>i < nat points. ?I ! i = (a * j0 (k wave * a * (?r ! i) / distance))\<^sup>2"
    by simp
  then have i: "\<forall>i < nat points. ?I ! i = (a * j0 (2 * pi / wl * a * (?r ! i) / distance))\<^sup>2"
    by (simp only: kw)
  have lr: "length ?r = nat points" by simp
  have li: "length ?I = nat points" by simp
  from c lr n e li i show ?thesis by blast
qed

text \<open>
  Green light, an aperture of one millimetre at one metre, three samples; the
  cosine stands for the imported function.
\<close>

theorem calculate_diffraction_pattern_witness:
  "\<exists>wave r I. WaveProperties_init (11 / 20000000) = Inr wave
     \<and> calculate_diffraction cos wave (1 / 1000) 1 3 = Inr (r, I)
     \<and> length r = 3 \<and> r ! 0 = 0 \<and> r ! 1 = 1 / 200 \<and> r ! 2 = 1 / 100
     \<and> length I = 3
     \<and> I ! 0 = (1 / 1000 * cos 0)\<^sup>2
     \<and> I ! 2 = (1 / 1000 * cos (2 * pi / (11 / 20000000) * (1 / 1000) * (1 / 100) / 1))\<^sup>2"
proof -
  obtain wave where w: "WaveProperties_init (11 / 20000000) = Inr wave"
    by (simp add: WaveProperties_init_def)
  obtain r I where c: "calculate_diffraction cos wave (1 / 1000) 1 3 = Inr (r, I)"
    and lr: "length r = nat 3"
    and n: "\<forall>i < nat 3. r ! i = real i * (10 * (1 / 1000) / real (nat 3 - 1))"
    and li: "length I = nat 3"
    and i: "\<forall>i < nat 3. I ! i
              = (1 / 1000 * cos (2 * pi / (11 / 20000000) * (1 / 1000) * (r ! i) / 1))\<^sup>2"
    using calculate_diffraction_pattern[OF w, of 3 1 cos "1 / 1000"] by auto
  have r0: "r ! 0 = 0" using n[rule_format, of 0] by simp
  have r1: "r ! 1 = 1 / 200" using n[rule_format, of 1] by simp
  have r2: "r ! 2 = 1 / 100" using n[rule_format, of 2] by simp
  have i0: "I ! 0 = (1 / 1000 * cos 0)\<^sup>2" using i[rule_format, of 0] r0 by simp
  have i2: "I ! 2 = (1 / 1000 * cos (2 * pi / (11 / 20000000) * (1 / 1000) * (1 / 100) / 1))\<^sup>2"
    using i[rule_format, of 2] by (simp only: r2)
  from w c lr li r0 r1 r2 i0 i2 show ?thesis by auto
qed

end
